theory Spec2Isabelle
  imports Main "HOL-Library.Word"
begin

section \<open>The chat widget of \<^verbatim>\<open>src/components/PoliChat.tsx\<close>\<close>

text \<open>
  The component keeps its state in eight \<^verbatim>\<open>useState\<close> cells and changes it in five
  asynchronous handlers: \<^verbatim>\<open>fetchChatSessions\<close>, \<^verbatim>\<open>createNewChatSession\<close>,
  \<^verbatim>\<open>loadChatSession\<close>, \<^verbatim>\<open>deleteChatSession\<close> and \<^verbatim>\<open>handleSend\<close>.
  Each handler is embedded as a function from the state at the moment the handler is
  called to the state once the handler and everything it started have settled. What the
  outside world contributes is a parameter of the handler: the signed-in user, the
  identifier drawn from \<^verbatim>\<open>uuidv4()\<close>, the clock read by \<^verbatim>\<open>new Date()\<close>, and the
  \<^verbatim>\<open>{ data, error }\<close> object each call to the store or to the edge function
  resolves to. One handler runs at a time; interleavings of two handlers that are in
  flight together are outside the model.

  A handler reads the state cells through the closure of the render that created it. A
  \<^verbatim>\<open>setX(v)\<close> inside the handler does not change what the handler, or a sibling
  handler of the same render that it calls, reads from \<^verbatim>\<open>x\<close> afterwards. The model
  therefore passes the captured \<^verbatim>\<open>currentSessionId\<close> to \<^verbatim>\<open>fetchChatSessions\<close>
  as an argument of its own.
\<close>

subsection \<open>JavaScript strings\<close>

text \<open>
  A JavaScript string is a sequence of UTF-16 code units; \<^verbatim>\<open>length\<close> and
  \<^verbatim>\<open>substring\<close> count code units.
\<close>

type_synonym code_unit = "16 word"
type_synonym jsstring = "code_unit list"

text \<open>A source literal, written in ASCII, as a JavaScript string.\<close>

definition lit :: "string \<Rightarrow> jsstring" where
  "lit cs = map (\<lambda>c. of_nat (of_char c)) cs"

text \<open>
  The code units \<^verbatim>\<open>String.prototype.trim\<close> strips: the WhiteSpace and LineTerminator
  productions of ECMAScript (TAB, LF, VT, FF, CR, SP, NBSP, U+1680, U+2000 to U+200A,
  U+2028, U+2029, U+202F, U+205F, U+3000, U+FEFF).
\<close>

definition is_whitespace :: "code_unit \<Rightarrow> bool" where
  "is_whitespace c \<longleftrightarrow>
     c \<in> {0x0009, 0x000A, 0x000B, 0x000C, 0x000D, 0x0020, 0x00A0, 0x1680,
          0x2000, 0x2001, 0x2002, 0x2003, 0x2004, 0x2005, 0x2006, 0x2007,
          0x2008, 0x2009, 0x200A, 0x2028, 0x2029, 0x202F, 0x205F, 0x3000, 0xFEFF}"

definition trim :: "jsstring \<Rightarrow> jsstring" where
  "trim s = rev (dropWhile is_whitespace (rev (dropWhile is_whitespace s)))"

text \<open>\<^verbatim>\<open>s.substring(0, n)\<close> for a non-negative \<open>n\<close>.\<close>

definition substring0 :: "jsstring \<Rightarrow> nat \<Rightarrow> jsstring" where
  "substring0 s n = take n s"

subsection \<open>Data of the component\<close>

datatype sender = User | Bot

text \<open>\<^verbatim>\<open>interface Message\<close>; a \<^verbatim>\<open>Date\<close> is its number of milliseconds.\<close>

record message =
  msg_type :: sender
  msg_content :: jsstring
  msg_timestamp :: nat

text \<open>\<^verbatim>\<open>interface ChatSession\<close>. Every session the component builds sets \<^verbatim>\<open>isActive\<close>.\<close>

record chat_session =
  cs_id :: jsstring
  cs_title :: jsstring
  lastMessage :: jsstring
  cs_timestamp :: nat
  isActive :: bool

text \<open>
  Rows of the two tables as the component reads them. A column the component only
  reads behind \<^verbatim>\<open>||\<close> may be null.
\<close>

record session_row =
  row_id :: jsstring
  row_title :: "jsstring option"
  row_user_id :: jsstring
  row_created_at :: "nat option"

record message_row =
  row_session_id :: jsstring
  row_content :: jsstring
  row_sender :: jsstring
  row_timestamp :: "nat option"

text \<open>The object a call to the store or to the edge function resolves to.\<close>

datatype service_error = ServiceError

record 'a response =
  data :: "'a option"
  error :: "service_error option"

text \<open>A notification raised with \<^verbatim>\<open>toast({ title, description, variant })\<close>.\<close>

record toast =
  toast_title :: string
  toast_description :: string
  destructive :: bool

definition error_toast :: "string \<Rightarrow> toast" where
  "error_toast d = \<lparr>toast_title = ''Error'', toast_description = d, destructive = True\<rparr>"

definition success_toast :: "string \<Rightarrow> toast" where
  "success_toast d = \<lparr>toast_title = ''Success'', toast_description = d, destructive = False\<rparr>"

text \<open>
  The requests the component issues. The two reads of \<^verbatim>\<open>chat_messages\<close> differ in
  what they ask of the store: the newest row only (descending, limit 1) or all rows
  oldest first. The message identifiers of the chat request are drawn from the clock and
  \<^verbatim>\<open>Math.random()\<close> and are left out.
\<close>

datatype net_call =
    SelectSessions jsstring
  | SelectLastMessage jsstring
  | InsertSession jsstring jsstring jsstring
  | SelectMessages jsstring
  | InvokeDeleteSession jsstring
  | InvokeChat "(jsstring \<times> sender) list" jsstring jsstring

text \<open>
  The state cells of \<^verbatim>\<open>PoliChat\<close>, followed by the two traces of what the component
  did to the outside: the notifications shown and the requests issued, oldest first.
\<close>

record widget =
  isOpen :: bool
  isMaximized :: bool
  isHistoryOpen :: bool
  messages :: "message list"
  chatSessions :: "chat_session list"
  input :: jsstring
  isLoading :: bool
  currentSessionId :: "jsstring option"
  toasts :: "toast list"
  calls :: "net_call list"

definition show_toast :: "toast \<Rightarrow> widget \<Rightarrow> widget" where
  "show_toast t s = s\<lparr>toasts := toasts s @ [t]\<rparr>"

definition issue :: "net_call list \<Rightarrow> widget \<Rightarrow> widget" where
  "issue cs s = s\<lparr>calls := calls s @ cs\<rparr>"

subsection \<open>\<^verbatim>\<open>fetchChatSessions\<close>\<close>

text \<open>
  The preview of a session from the \<^verbatim>\<open>data\<close> of its newest-message query (the error
  of that query is not read): the first 30 code units of the row's content, followed by
  three full stops when the content is longer.
\<close>

definition ellipsis :: jsstring where
  "ellipsis = lit ''...''"

definition preview :: "message_row list option \<Rightarrow> jsstring" where
  "preview messagesData =
     (case messagesData of
        Some (m # _) \<Rightarrow>
          substring0 (row_content m) 30 @ (if length (row_content m) > 30 then ellipsis else [])
      | _ \<Rightarrow> [])"

text \<open>\<^verbatim>\<open>session.title || 'Untitled Chat'\<close>: null and the empty string are both falsy.\<close>

definition title_or_default :: "jsstring option \<Rightarrow> jsstring" where
  "title_or_default t =
     (case t of None \<Rightarrow> lit ''Untitled Chat''
      | Some x \<Rightarrow> if x = [] then lit ''Untitled Chat'' else x)"

text \<open>\<^verbatim>\<open>new Date(t || new Date())\<close>.\<close>

definition date_or_now :: "nat option \<Rightarrow> nat \<Rightarrow> nat" where
  "date_or_now t now = (case t of None \<Rightarrow> now | Some x \<Rightarrow> x)"

text \<open>\<^verbatim>\<open>session.id === currentSessionId\<close>, with the captured pointer.\<close>

definition is_current :: "jsstring \<Rightarrow> jsstring option \<Rightarrow> bool" where
  "is_current i cur = (cur = Some i)"

definition to_chat_session ::
  "jsstring option \<Rightarrow> nat \<Rightarrow> (jsstring \<Rightarrow> message_row list option) \<Rightarrow> session_row \<Rightarrow> chat_session" where
  "to_chat_session cur now lastOf session =
     \<lparr>cs_id = row_id session,
      cs_title = title_or_default (row_title session),
      lastMessage = preview (lastOf (row_id session)),
      cs_timestamp = date_or_now (row_created_at session) now,
      isActive = is_current (row_id session) cur\<rparr>"

text \<open>
  What the store answers during one run of \<^verbatim>\<open>fetchChatSessions\<close>: the response of
  the query on \<^verbatim>\<open>chat_sessions\<close>, and for each session id the \<^verbatim>\<open>data\<close> of the
  newest-message query; and the clock.
\<close>

record fetch_env =
  sessions_response :: "session_row list response"
  last_message_data :: "jsstring \<Rightarrow> message_row list option"
  fetch_now :: nat

definition fetchChatSessions ::
  "jsstring option \<Rightarrow> jsstring option \<Rightarrow> fetch_env \<Rightarrow> widget \<Rightarrow> widget" where
  "fetchChatSessions user cur env s =
     (case user of
        None \<Rightarrow> s
      | Some uid \<Rightarrow>
          let s1 = issue [SelectSessions uid] s in
          (case error (sessions_response env) of
             Some e \<Rightarrow> show_toast (error_toast ''Failed to load chat history.'') s1
           | None \<Rightarrow>
               (case data (sessions_response env) of
                  None \<Rightarrow> s1\<lparr>chatSessions := []\<rparr>
                | Some sessionsData \<Rightarrow>
                    if sessionsData = [] then s1\<lparr>chatSessions := []\<rparr>
                    else
                      (issue (map (\<lambda>session. SelectLastMessage (row_id session)) sessionsData) s1)
                        \<lparr>chatSessions :=
                           map (to_chat_session cur (fetch_now env) (last_message_data env))
                             sessionsData\<rparr>)))"

subsection \<open>\<^verbatim>\<open>createNewChatSession\<close>\<close>

text \<open>
  \<open>newSessionId\<close> is the value of \<^verbatim>\<open>uuidv4()\<close>, \<open>insertResponse\<close> what the insert
  with \<^verbatim>\<open>.select('*').single()\<close> resolves to. With neither error nor data,
  \<^verbatim>\<open>data.id\<close> throws and the \<^verbatim>\<open>catch\<close> block runs.
\<close>

definition createNewChatSession ::
  "jsstring option \<Rightarrow> jsstring \<Rightarrow> session_row response \<Rightarrow> nat \<Rightarrow> widget \<Rightarrow> widget" where
  "createNewChatSession user newSessionId insertResponse now s =
     (case user of
        None \<Rightarrow>
          show_toast (error_toast ''You need to be logged in to create a chat session.'') s
      | Some uid \<Rightarrow>
          let s1 = issue [InsertSession newSessionId (lit ''New Chat'') uid] s in
          (case error insertResponse of
             Some e \<Rightarrow> show_toast (error_toast ''Failed to create a new chat.'') s1
           | None \<Rightarrow>
               (case data insertResponse of
                  None \<Rightarrow> show_toast (error_toast ''Failed to create a new chat.'') s1
                | Some d \<Rightarrow>
                    let newSession =
                          \<lparr>cs_id = row_id d, cs_title = lit ''New Chat'', lastMessage = [],
                           cs_timestamp = now, isActive = True\<rparr>
                    in s1\<lparr>currentSessionId := Some (row_id d),
                          messages := [],
                          chatSessions :=
                            newSession # map (\<lambda>x. x\<lparr>isActive := False\<rparr>) (chatSessions s1)\<rparr>)))"

subsection \<open>\<^verbatim>\<open>loadChatSession\<close>\<close>

text \<open>A row of \<^verbatim>\<open>chat_messages\<close> in the shape of \<^verbatim>\<open>Message\<close>.\<close>

definition format_message :: "nat \<Rightarrow> message_row \<Rightarrow> message" where
  "format_message now msg =
     \<lparr>msg_type = (if row_sender msg = lit ''user'' then User else Bot),
      msg_content = (if row_content msg = [] then [] else row_content msg),
      msg_timestamp = date_or_now (row_timestamp msg) now\<rparr>"

definition loadChatSession ::
  "jsstring \<Rightarrow> message_row list response \<Rightarrow> nat \<Rightarrow> widget \<Rightarrow> widget" where
  "loadChatSession sessionId messagesResponse now s =
     (let s1 = s\<lparr>isLoading := True\<rparr>;
          s2 = s1\<lparr>chatSessions :=
                    map (\<lambda>session. session\<lparr>isActive := (cs_id session = sessionId)\<rparr>)
                      (chatSessions s1)\<rparr>;
          s3 = issue [SelectMessages sessionId] s2
      in (case error messagesResponse of
            Some e \<Rightarrow>
              (show_toast (error_toast ''Failed to load chat messages.'') s3)\<lparr>isLoading := False\<rparr>
          | None \<Rightarrow>
              let formattedMessages =
                    (case data messagesResponse of
                       None \<Rightarrow> []
                     | Some rows \<Rightarrow> map (format_message now) rows)
              in s3\<lparr>messages := formattedMessages,
                    currentSessionId := Some sessionId,
                    isLoading := False\<rparr>))"

subsection \<open>\<^verbatim>\<open>deleteChatSession\<close>\<close>

text \<open>
  \<open>deleteResponse\<close> is what the edge function resolves to for the
  \<^verbatim>\<open>delete_session\<close> command, \<open>refetch\<close> what the store answers to the
  \<^verbatim>\<open>fetchChatSessions()\<close> that both branches end with. That call belongs to the
  render of the handler, so it compares with the \<^verbatim>\<open>currentSessionId\<close> the handler
  started from. In the \<^verbatim>\<open>catch\<close> branch the call is not awaited: the
  \<^verbatim>\<open>finally\<close> block runs before its result arrives.
\<close>

definition deleteChatSession ::
  "jsstring option \<Rightarrow> jsstring \<Rightarrow> unit response \<Rightarrow> fetch_env \<Rightarrow> widget \<Rightarrow> widget" where
  "deleteChatSession user sessionId deleteResponse refetch s =
     (let s1 = s\<lparr>isLoading := True\<rparr>;
          s2 = s1\<lparr>chatSessions :=
                    filter (\<lambda>session. cs_id session \<noteq> sessionId) (chatSessions s1)\<rparr>;
          s3 = (if currentSessionId s = Some sessionId
                then s2\<lparr>messages := [], currentSessionId := None\<rparr>
                else s2);
          s4 = issue [InvokeDeleteSession sessionId] s3
      in (case error deleteResponse of
            Some e \<Rightarrow>
              let s5 = show_toast (error_toast ''Failed to delete chat. Please try again.'') s4
              in fetchChatSessions user (currentSessionId s) refetch (s5\<lparr>isLoading := False\<rparr>)
          | None \<Rightarrow>
              let s5 = show_toast (success_toast ''Chat deleted successfully.'') s4
              in (fetchChatSessions user (currentSessionId s) refetch s5)\<lparr>isLoading := False\<rparr>))"

subsection \<open>\<^verbatim>\<open>handleSend\<close>\<close>

text \<open>
  What the outside contributes to one run of \<^verbatim>\<open>handleSend\<close>: the value of
  \<^verbatim>\<open>uuidv4()\<close>, the clock at the user's message and at the reply, what the edge
  function resolves to (\<open>data\<close> is the \<^verbatim>\<open>answer\<close>), and what the store answers to the
  \<^verbatim>\<open>fetchChatSessions()\<close> after a reply.
\<close>

record send_env =
  new_uuid :: jsstring
  user_now :: nat
  chat_response :: "jsstring response"
  bot_now :: nat
  send_refetch :: fetch_env

text \<open>\<^verbatim>\<open>!sessionId\<close>: null and the empty string are both falsy.\<close>

definition falsy_id :: "jsstring option \<Rightarrow> bool" where
  "falsy_id i = (case i of None \<Rightarrow> True | Some x \<Rightarrow> x = [])"

definition chat_payload :: "message list \<Rightarrow> jsstring \<Rightarrow> (jsstring \<times> sender) list" where
  "chat_payload ms userMessage =
     map (\<lambda>msg. (msg_content msg, if msg_type msg = User then User else Bot)) ms
       @ [(userMessage, User)]"

definition handleSend :: "jsstring option \<Rightarrow> send_env \<Rightarrow> widget \<Rightarrow> widget" where
  "handleSend user env s =
     (if trim (input s) = [] then s
      else
        let userMessage = trim (input s);
            s1 = s\<lparr>input := []\<rparr>
        in (case user of
              None \<Rightarrow>
                (show_toast (error_toast ''You need to be logged in to send messages.'') s1)
                  \<lparr>isLoading := False\<rparr>
            | Some uid \<Rightarrow>
                let sessionId =
                      (case currentSessionId s of
                         None \<Rightarrow> new_uuid env
                       | Some i \<Rightarrow> if i = [] then new_uuid env else i);
                    s2 = (if falsy_id (currentSessionId s)
                          then s1\<lparr>currentSessionId := Some sessionId\<rparr> else s1);
                    newUserMessage =
                      \<lparr>msg_type = User, msg_content = userMessage, msg_timestamp = user_now env\<rparr>;
                    s3 = s2\<lparr>messages := messages s2 @ [newUserMessage]\<rparr>;
                    s4 = s3\<lparr>isLoading := True\<rparr>;
                    s5 = issue [InvokeChat (chat_payload (messages s) userMessage) sessionId uid] s4
                in (case error (chat_response env) of
                      Some e \<Rightarrow>
                        (show_toast (error_toast ''Failed to get a response. Please try again.'') s5)
                          \<lparr>isLoading := False\<rparr>
                    | None \<Rightarrow>
                        (case data (chat_response env) of
                           None \<Rightarrow>
                             (show_toast
                                (error_toast ''Failed to get a response. Please try again.'') s5)
                               \<lparr>isLoading := False\<rparr>
                         | Some answer \<Rightarrow>
                             let botResponse =
                                   \<lparr>msg_type = Bot, msg_content = answer,
                                    msg_timestamp = bot_now env\<rparr>;
                                 s6 = s5\<lparr>messages := messages s5 @ [botResponse]\<rparr>
                             in fetchChatSessions user (currentSessionId s) (send_refetch env)
                                  (s6\<lparr>isLoading := False\<rparr>)))))"

subsection \<open>The component as a transition system\<close>

text \<open>The values the state cells are created with.\<close>

definition initial_widget :: widget where
  "initial_widget =
     \<lparr>isOpen = False, isMaximized = False, isHistoryOpen = False, messages = [],
      chatSessions = [], input = [], isLoading = False, currentSessionId = None,
      toasts = [], calls = []\<rparr>"

text \<open>
  One operation of the component together with what the outside contributes to it.
  Listing is the effect on \<^verbatim>\<open>[isOpen, user]\<close>, which calls
  \<^verbatim>\<open>fetchChatSessions\<close> when the widget is open and a user is signed in; the other
  four are the handlers behind the buttons and the form.
\<close>

datatype operation =
    ListSessions fetch_env
  | CreateSession jsstring "session_row response" nat
  | LoadSession jsstring "message_row list response" nat
  | DeleteSession jsstring "unit response" fetch_env
  | Send send_env

fun perform :: "jsstring option \<Rightarrow> operation \<Rightarrow> widget \<Rightarrow> widget" where
  "perform user (ListSessions env) s =
     (if isOpen s \<and> user \<noteq> None then fetchChatSessions user (currentSessionId s) env s else s)"
| "perform user (CreateSession newSessionId r now) s = createNewChatSession user newSessionId r now s"
| "perform user (LoadSession sessionId r now) s = loadChatSession sessionId r now s"
| "perform user (DeleteSession sessionId r env) s = deleteChatSession user sessionId r env s"
| "perform user (Send env) s = handleSend user env s"

text \<open>
  The identifiers of the visible sessions, the sessions marked active, and the two halves
  of the invariant: at most one session is marked, and a marked session is the one the
  pointer names.
\<close>

definition session_ids :: "widget \<Rightarrow> jsstring list" where
  "session_ids s = map cs_id (chatSessions s)"

definition active_sessions :: "widget \<Rightarrow> chat_session list" where
  "active_sessions s = filter isActive (chatSessions s)"

definition at_most_one_active :: "widget \<Rightarrow> bool" where
  "at_most_one_active s \<longleftrightarrow> length (active_sessions s) \<le> 1"

definition active_is_current :: "widget \<Rightarrow> bool" where
  "active_is_current s \<longleftrightarrow>
     list_all (\<lambda>x. currentSessionId s = Some (cs_id x)) (active_sessions s)"

definition session_invariant :: "widget \<Rightarrow> bool" where
  "session_invariant s \<longleftrightarrow> at_most_one_active s \<and> active_is_current s"

text \<open>
  The rows a run of \<^verbatim>\<open>fetchChatSessions\<close> puts on display: none when no user is
  signed in (the run returns at once) or when the query fails.
\<close>

definition returned_rows :: "jsstring option \<Rightarrow> fetch_env \<Rightarrow> session_row list" where
  "returned_rows user env =
     (case user of
        None \<Rightarrow> []
      | Some uid \<Rightarrow>
          (case error (sessions_response env) of
             Some e \<Rightarrow> []
           | None \<Rightarrow> (case data (sessions_response env) of None \<Rightarrow> [] | Some rows \<Rightarrow> rows)))"

text \<open>The store answers every session query of the operation with rows of distinct ids.\<close>

fun unique_rows :: "jsstring option \<Rightarrow> operation \<Rightarrow> bool" where
  "unique_rows user (ListSessions env) = distinct (map row_id (returned_rows user env))"
| "unique_rows user (DeleteSession sessionId r env) = distinct (map row_id (returned_rows user env))"
| "unique_rows user (Send env) = distinct (map row_id (returned_rows user (send_refetch env)))"
| "unique_rows user (CreateSession newSessionId r now) = True"
| "unique_rows user (LoadSession sessionId r now) = True"

text \<open>
  The runs after which the marked session is known to be the one the pointer names: a
  load whose query succeeds, a deletion unless it removes the active session and the
  list fetched afterwards still holds that session, a send from a pointer that is not
  the empty string, and every listing and creation.
\<close>

fun settles :: "jsstring option \<Rightarrow> operation \<Rightarrow> widget \<Rightarrow> bool" where
  "settles user (ListSessions env) s = True"
| "settles user (CreateSession newSessionId r now) s = True"
| "settles user (LoadSession sessionId r now) s = (error r = None)"
| "settles user (DeleteSession sessionId r env) s =
     (currentSessionId s \<noteq> Some sessionId \<or>
      sessionId \<notin> set (map row_id (returned_rows user env)))"
| "settles user (Send env) s = (currentSessionId s \<noteq> Some [])"

text \<open>A run of \<^verbatim>\<open>fetchChatSessions\<close> replaces the visible list.\<close>

definition fetch_applies :: "jsstring option \<Rightarrow> fetch_env \<Rightarrow> bool" where
  "fetch_applies user env \<longleftrightarrow> user \<noteq> None \<and> error (sessions_response env) = None"

text \<open>A run of \<^verbatim>\<open>handleSend\<close> gets a reply and its closing fetch replaces the list.\<close>

definition send_refetches :: "jsstring option \<Rightarrow> send_env \<Rightarrow> widget \<Rightarrow> bool" where
  "send_refetches user env s \<longleftrightarrow>
     trim (input s) \<noteq> [] \<and> error (chat_response env) = None \<and>
     data (chat_response env) \<noteq> None \<and> fetch_applies user (send_refetch env)"

subsection \<open>Responses and stores used in the examples\<close>

definition failed :: "'a response" where
  "failed = \<lparr>data = None, error = Some ServiceError\<rparr>"

definition succeeded :: "'a \<Rightarrow> 'a response" where
  "succeeded x = \<lparr>data = Some x, error = None\<rparr>"

text \<open>A session row of user \<open>u\<close> and a displayed session, with the given id.\<close>

definition row_of :: "string \<Rightarrow> session_row" where
  "row_of i = \<lparr>row_id = lit i, row_title = Some (lit ''Leave policy''),
               row_user_id = lit ''u'', row_created_at = Some 100\<rparr>"

definition shown :: "string \<Rightarrow> bool \<Rightarrow> chat_session" where
  "shown i a = \<lparr>cs_id = lit i, cs_title = lit ''Leave policy'', lastMessage = [],
               cs_timestamp = 100, isActive = a\<rparr>"

definition text_row :: "string \<Rightarrow> nat \<Rightarrow> message_row" where
  "text_row c t = \<lparr>row_session_id = lit ''a'', row_content = lit c, row_sender = lit ''user'',
                   row_timestamp = Some t\<rparr>"

text \<open>A store that answers the session query with the given rows and has no messages.\<close>

definition store_with :: "session_row list \<Rightarrow> fetch_env" where
  "store_with rows =
     \<lparr>sessions_response = succeeded rows, last_message_data = (\<lambda>i. Some []), fetch_now = 200\<rparr>"

definition store_down :: fetch_env where
  "store_down =
     \<lparr>sessions_response = failed, last_message_data = (\<lambda>i. None), fetch_now = 200\<rparr>"

text \<open>A store that answers the session query and fails every newest-message query.\<close>

definition store_without_previews :: "session_row list \<Rightarrow> fetch_env" where
  "store_without_previews rows =
     \<lparr>sessions_response = succeeded rows, last_message_data = (\<lambda>i. None), fetch_now = 200\<rparr>"

text \<open>A store whose newest message is \<open>m\<close> for every session.\<close>

definition store_with_last :: "session_row list \<Rightarrow> message_row \<Rightarrow> fetch_env" where
  "store_with_last rows m =
     \<lparr>sessions_response = succeeded rows, last_message_data = (\<lambda>i. Some [m]), fetch_now = 200\<rparr>"

text \<open>A run of \<^verbatim>\<open>handleSend\<close> in which the edge function answers as given.\<close>

definition send_with :: "jsstring response \<Rightarrow> send_env" where
  "send_with r =
     \<lparr>new_uuid = lit ''fresh'', user_now = 300, chat_response = r, bot_now = 301,
      send_refetch = store_with []\<rparr>"

section \<open>Properties\<close>

subsection \<open>Auxiliary facts\<close>

lemma dropWhile_all_iff: "list_all P (dropWhile P xs) \<longleftrightarrow> list_all P xs"
  by (induction xs) auto

lemma trim_Nil_iff: "trim s = [] \<longleftrightarrow> list_all is_whitespace s"
proof -
  have "trim s = [] \<longleftrightarrow> list_all is_whitespace (rev (dropWhile is_whitespace s))"
    by (simp add: trim_def dropWhile_eq_Nil_conv list_all_iff)
  also have "\<dots> \<longleftrightarrow> list_all is_whitespace (dropWhile is_whitespace s)"
    by (simp add: list_all_iff)
  also have "\<dots> \<longleftrightarrow> list_all is_whitespace s"
    by (rule dropWhile_all_iff)
  finally show ?thesis .
qed

lemma filter_key_le_one:
  "distinct (map f xs) \<Longrightarrow> length (filter (\<lambda>x. f x = a) xs) \<le> Suc 0"
  by (induction xs) (auto simp: filter_empty_conv image_iff)


lemma filter_filter_le: "length (filter P (filter Q xs)) \<le> length (filter P xs)"
  by (induction xs) auto

subsubsection \<open>What \<^verbatim>\<open>fetchChatSessions\<close> changes\<close>

lemma fetch_chatSessions:
  "chatSessions (fetchChatSessions user cur env s) =
     (if fetch_applies user env
      then map (to_chat_session cur (fetch_now env) (last_message_data env))
             (returned_rows user env)
      else chatSessions s)"
  by (auto simp: fetchChatSessions_def fetch_applies_def returned_rows_def issue_def
      show_toast_def Let_def split: option.splits)

lemma fetch_pointer:
  "currentSessionId (fetchChatSessions user cur env s) = currentSessionId s"
  by (simp add: fetchChatSessions_def issue_def show_toast_def Let_def split: option.splits)

lemma fetch_messages: "messages (fetchChatSessions user cur env s) = messages s"
  by (simp add: fetchChatSessions_def issue_def show_toast_def Let_def split: option.splits)

lemma fetch_input: "input (fetchChatSessions user cur env s) = input s"
  by (simp add: fetchChatSessions_def issue_def show_toast_def Let_def split: option.splits)

lemma active_of_rows:
  "filter isActive (map (to_chat_session cur now lm) rows) =
     map (to_chat_session cur now lm) (filter (\<lambda>r. cur = Some (row_id r)) rows)"
  by (induction rows) (auto simp: to_chat_session_def is_current_def)

lemma rows_at_most_one:
  assumes "distinct (map row_id rows)"
  shows "length (filter isActive (map (to_chat_session cur now lm) rows)) \<le> Suc 0"
proof (cases cur)
  case None
  then show ?thesis by (simp add: active_of_rows)
next
  case (Some c)
  have "filter (\<lambda>r. Some c = Some (row_id r)) rows = filter (\<lambda>r. row_id r = c) rows"
    by (rule filter_cong) auto
  with Some filter_key_le_one[OF assms, of c] show ?thesis
    by (simp add: active_of_rows)
qed

lemma fetch_at_most_one:
  assumes "distinct (map row_id (returned_rows user env))" and "at_most_one_active s"
  shows "at_most_one_active (fetchChatSessions user cur env s)"
  using assms rows_at_most_one[OF assms(1)]
  by (simp add: at_most_one_active_def active_sessions_def fetch_chatSessions)

lemma fetch_active_ids:
  assumes "fetch_applies user env"
      and "x \<in> set (active_sessions (fetchChatSessions user cur env s))"
  shows "cur = Some (cs_id x) \<and> cs_id x \<in> set (map row_id (returned_rows user env))"
  using assms
  by (auto simp: active_sessions_def fetch_chatSessions to_chat_session_def is_current_def)

lemma fetch_active_unchanged:
  "\<not> fetch_applies user env \<Longrightarrow>
     active_sessions (fetchChatSessions user cur env s) = active_sessions s"
  by (simp add: active_sessions_def fetch_chatSessions)

subsubsection \<open>What the other handlers change\<close>

lemma create_preserves:
  assumes "session_invariant s"
  shows "session_invariant (createNewChatSession user newSessionId r now s)"
  using assms
  by (auto simp: createNewChatSession_def session_invariant_def at_most_one_active_def
      active_is_current_def active_sessions_def issue_def show_toast_def Let_def
      filter_empty_conv split: option.splits)

lemma load_active:
  "active_sessions (loadChatSession sessionId r now s) =
     map (\<lambda>x. x\<lparr>isActive := True\<rparr>) (filter (\<lambda>x. cs_id x = sessionId) (chatSessions s))"
  by (simp add: loadChatSession_def active_sessions_def issue_def show_toast_def Let_def
      filter_map o_def split: option.splits)

lemma load_pointer:
  "currentSessionId (loadChatSession sessionId r now s) =
     (if error r = None then Some sessionId else currentSessionId s)"
  by (simp add: loadChatSession_def issue_def show_toast_def Let_def split: option.splits)

lemma load_preserves:
  assumes "distinct (session_ids s)"
  shows "at_most_one_active (loadChatSession sessionId r now s) \<and>
         (error r = None \<longrightarrow> active_is_current (loadChatSession sessionId r now s))"
  using filter_key_le_one[OF assms[unfolded session_ids_def], of sessionId]
  by (simp add: at_most_one_active_def active_is_current_def load_active load_pointer
      list_all_iff)

lemma delete_pointer:
  "currentSessionId (deleteChatSession user sessionId r env s) =
     (if currentSessionId s = Some sessionId then None else currentSessionId s)"
  by (simp add: deleteChatSession_def fetch_pointer issue_def show_toast_def Let_def
      split: option.splits)

lemma delete_messages:
  "messages (deleteChatSession user sessionId r env s) =
     (if currentSessionId s = Some sessionId then [] else messages s)"
  by (simp add: deleteChatSession_def fetch_messages issue_def show_toast_def Let_def
      split: option.splits)

lemma delete_chatSessions:
  "chatSessions (deleteChatSession user sessionId r env s) =
     (if fetch_applies user env
      then map (to_chat_session (currentSessionId s) (fetch_now env) (last_message_data env))
             (returned_rows user env)
      else filter (\<lambda>x. cs_id x \<noteq> sessionId) (chatSessions s))"
  by (simp add: deleteChatSession_def fetch_chatSessions issue_def show_toast_def Let_def
      split: option.splits)

lemma delete_preserves:
  assumes "session_invariant s" and "distinct (map row_id (returned_rows user env))"
  shows "at_most_one_active (deleteChatSession user sessionId r env s) \<and>
         (currentSessionId s \<noteq> Some sessionId \<or>
          sessionId \<notin> set (map row_id (returned_rows user env)) \<longrightarrow>
          active_is_current (deleteChatSession user sessionId r env s))"
proof (cases "fetch_applies user env")
  case True
  have one: "at_most_one_active (deleteChatSession user sessionId r env s)"
    using rows_at_most_one[OF assms(2)] True
    by (simp add: at_most_one_active_def active_sessions_def delete_chatSessions)
  have cur: "active_is_current (deleteChatSession user sessionId r env s)"
    if "currentSessionId s \<noteq> Some sessionId \<or>
        sessionId \<notin> set (map row_id (returned_rows user env))"
    using that True
    by (auto simp: active_is_current_def active_sessions_def delete_chatSessions delete_pointer
        list_all_iff to_chat_session_def is_current_def)
  from one cur show ?thesis by blast
next
  case False
  have le: "length (filter isActive (filter (\<lambda>x. cs_id x \<noteq> sessionId) (chatSessions s)))
            \<le> length (filter isActive (chatSessions s))"
    by (rule filter_filter_le)
  have one: "at_most_one_active (deleteChatSession user sessionId r env s)"
    using assms(1) False le
    by (simp add: session_invariant_def at_most_one_active_def active_sessions_def
        delete_chatSessions)
  have cur: "active_is_current (deleteChatSession user sessionId r env s)"
    using assms(1) False
    by (auto simp: session_invariant_def active_is_current_def active_sessions_def
        delete_chatSessions delete_pointer list_all_iff)
  from one cur show ?thesis by blast
qed

lemma send_pointer:
  "currentSessionId (handleSend user env s) =
     (if trim (input s) \<noteq> [] \<and> user \<noteq> None \<and> falsy_id (currentSessionId s)
      then Some (new_uuid env) else currentSessionId s)"
  by (simp add: handleSend_def fetch_pointer issue_def show_toast_def Let_def falsy_id_def
      split: option.splits)

lemma send_chatSessions:
  "chatSessions (handleSend user env s) =
     (if send_refetches user env s
      then map (to_chat_session (currentSessionId s) (fetch_now (send_refetch env))
                  (last_message_data (send_refetch env)))
             (returned_rows user (send_refetch env))
      else chatSessions s)"
  by (auto simp: handleSend_def send_refetches_def fetch_chatSessions issue_def show_toast_def
      Let_def fetch_applies_def split: option.splits)

lemma send_preserves:
  assumes "session_invariant s"
      and "distinct (map row_id (returned_rows user (send_refetch env)))"
  shows "at_most_one_active (handleSend user env s) \<and>
         (currentSessionId s \<noteq> Some [] \<longrightarrow> active_is_current (handleSend user env s))"
proof (cases "send_refetches user env s")
  case True
  have one: "at_most_one_active (handleSend user env s)"
    using rows_at_most_one[OF assms(2)] True
    by (simp add: at_most_one_active_def active_sessions_def send_chatSessions)
  have cur: "active_is_current (handleSend user env s)" if "currentSessionId s \<noteq> Some []"
    using that True
    by (auto simp: active_is_current_def active_sessions_def send_chatSessions send_pointer
        list_all_iff to_chat_session_def is_current_def falsy_id_def split: option.splits)
  from one cur show ?thesis by blast
next
  case False
  have one: "at_most_one_active (handleSend user env s)"
    using assms(1) False
    by (simp add: session_invariant_def at_most_one_active_def active_sessions_def
        send_chatSessions)
  have cur: "active_is_current (handleSend user env s)" if "currentSessionId s \<noteq> Some []"
    using that assms(1) False
    by (auto simp: session_invariant_def active_is_current_def active_sessions_def
        send_chatSessions send_pointer list_all_iff falsy_id_def split: option.splits)
  from one cur show ?thesis by blast
qed

lemma list_preserves:
  assumes "session_invariant s" and "distinct (map row_id (returned_rows user env))"
  shows "session_invariant (fetchChatSessions user (currentSessionId s) env s)"
proof (cases "fetch_applies user env")
  case True
  then show ?thesis
    using assms fetch_active_ids[OF True]
    by (auto simp: session_invariant_def fetch_at_most_one active_is_current_def list_all_iff
        fetch_pointer)
next
  case False
  then show ?thesis
    using assms
    by (simp add: session_invariant_def at_most_one_active_def active_is_current_def
        fetch_active_unchanged fetch_pointer)
qed

subsection \<open>Sending\<close>

text \<open>
  Claim C1. A send of non-blank input while no user is signed in appends no message to
  the visible list, shows the error notification, and issues no request, neither to the
  store nor to the answering service.
\<close>

theorem send_unauthenticated:
  assumes "\<not> list_all is_whitespace (input s)"
  shows "messages (handleSend None env s) = messages s \<and>
         toasts (handleSend None env s) =
           toasts s @ [error_toast ''You need to be logged in to send messages.''] \<and>
         calls (handleSend None env s) = calls s"
  using assms by (simp add: handleSend_def trim_Nil_iff show_toast_def)

theorem send_unauthenticated_witness:
  "\<not> list_all is_whitespace (input (initial_widget\<lparr>input := lit ''hello''\<rparr>)) \<and>
   messages (handleSend None (send_with (succeeded (lit ''hi'')))
     (initial_widget\<lparr>input := lit ''hello''\<rparr>)) = [] \<and>
   toasts (handleSend None (send_with (succeeded (lit ''hi'')))
     (initial_widget\<lparr>input := lit ''hello''\<rparr>)) =
     [error_toast ''You need to be logged in to send messages.''] \<and>
   calls (handleSend None (send_with (succeeded (lit ''hi'')))
     (initial_widget\<lparr>input := lit ''hello''\<rparr>)) = []"
proof -
  have h: "\<not> list_all is_whitespace (input (initial_widget\<lparr>input := lit ''hello''\<rparr>))"
    by (simp add: lit_def is_whitespace_def)
  from send_unauthenticated[OF h, of "send_with (succeeded (lit ''hi''))"] h show ?thesis
    by (simp add: initial_widget_def)
qed

text \<open>
  Claim C6. A send of blank or whitespace-only input changes nothing: messages, sessions,
  pointer, input text and loading flag stay as they are, and no request is issued. The
  whole state, traces included, is the one before.
\<close>

theorem send_blank_no_change:
  "list_all is_whitespace (input s) \<Longrightarrow> handleSend user env s = s"
  by (simp add: handleSend_def trim_Nil_iff)

theorem send_blank_no_change_witness:
  "list_all is_whitespace (input (initial_widget\<lparr>input := [0x0020, 0x0009, 0x00A0]\<rparr>)) \<and>
   handleSend (Some (lit ''u'')) (send_with (succeeded (lit ''hi'')))
     (initial_widget\<lparr>input := [0x0020, 0x0009, 0x00A0]\<rparr>) =
   initial_widget\<lparr>input := [0x0020, 0x0009, 0x00A0]\<rparr>"
proof -
  have h: "list_all is_whitespace (input (initial_widget\<lparr>input := [0x0020, 0x0009, 0x00A0]\<rparr>))"
    by (simp add: is_whitespace_def)
  from send_blank_no_change[OF h] h show ?thesis by simp
qed

text \<open>
  Claim C10. A send of non-blank input clears the input field whatever follows: with no
  user signed in, with a failing request and with a reply alike, the field is empty in the
  end and the typed text is not put back.
\<close>

theorem send_clears_input:
  assumes "\<not> list_all is_whitespace (input s)"
  shows "input (handleSend user env s) = []"
  using assms
  by (simp add: handleSend_def trim_Nil_iff show_toast_def issue_def Let_def fetch_input
      split: option.splits)

theorem send_clears_input_witness:
  "\<not> list_all is_whitespace (input (initial_widget\<lparr>input := lit ''hello''\<rparr>)) \<and>
   input (handleSend None (send_with failed) (initial_widget\<lparr>input := lit ''hello''\<rparr>)) = [] \<and>
   input (handleSend (Some (lit ''u'')) (send_with failed)
     (initial_widget\<lparr>input := lit ''hello''\<rparr>)) = []"
proof -
  have h: "\<not> list_all is_whitespace (input (initial_widget\<lparr>input := lit ''hello''\<rparr>))"
    by (simp add: lit_def is_whitespace_def)
  from send_clears_input[OF h, of None "send_with failed"]
    send_clears_input[OF h, of "Some (lit ''u'')" "send_with failed"] h
  show ?thesis by simp
qed

subsection \<open>Listing sessions\<close>

text \<open>
  Claim C2. For a session whose newest-message query returns a row, the preview the
  session-list fetch builds is the row's content when that has at most 30 code units,
  and its first 30 code units followed by three full stops when it has more.
\<close>

theorem preview_text:
  assumes "error (sessions_response env) = None"
      and "data (sessions_response env) = Some rows"
      and "i < length rows"
      and "last_message_data env (row_id (rows ! i)) = Some (m # ms)"
  shows "cs_id (chatSessions (fetchChatSessions (Some uid) cur env s) ! i) = row_id (rows ! i) \<and>
         lastMessage (chatSessions (fetchChatSessions (Some uid) cur env s) ! i) =
           (if length (row_content m) > 30 then take 30 (row_content m) @ lit ''...''
            else row_content m)"
  using assms
  by (auto simp add: fetchChatSessions_def issue_def Let_def to_chat_session_def preview_def
      substring0_def ellipsis_def)

theorem preview_text_witness:
  "error (sessions_response
     (store_with_last [row_of ''a''] (text_row ''How many days of leave do I have?'' 150))) = None \<and>
   data (sessions_response
     (store_with_last [row_of ''a''] (text_row ''How many days of leave do I have?'' 150))) =
     Some [row_of ''a''] \<and>
   (0::nat) < length [row_of ''a''] \<and>
   last_message_data
     (store_with_last [row_of ''a''] (text_row ''How many days of leave do I have?'' 150))
     (row_id ([row_of ''a''] ! 0)) = Some [text_row ''How many days of leave do I have?'' 150] \<and>
   lastMessage (chatSessions (fetchChatSessions (Some (lit ''u'')) None
     (store_with_last [row_of ''a''] (text_row ''How many days of leave do I have?'' 150))
     initial_widget) ! 0) = lit ''How many days of leave do I ha...''"
proof -
  let ?env = "store_with_last [row_of ''a''] (text_row ''How many days of leave do I have?'' 150)"
  have h1: "error (sessions_response ?env) = None"
    by (simp add: store_with_last_def succeeded_def)
  have h2: "data (sessions_response ?env) = Some [row_of ''a'']"
    by (simp add: store_with_last_def succeeded_def)
  have h3: "(0::nat) < length [row_of ''a'']" by simp
  have h4: "last_message_data ?env (row_id ([row_of ''a''] ! 0)) =
              Some (text_row ''How many days of leave do I have?'' 150 # [])"
    by (simp add: store_with_last_def)
  from preview_text[OF h1 h2 h3 h4, of "lit ''u''" None initial_widget] h1 h2 h4 show ?thesis
    by (simp add: text_row_def lit_def)
qed

text \<open>
  Claim C7, as stated: every failure of the session-list fetch shows an error
  notification and leaves the displayed list as it was. It fails for the newest-message
  queries inside the fetch: their error is never read, a query without data only leaves
  the preview empty, no notification is shown and the list is replaced.
\<close>

theorem failed_preview_query_is_silent:
  "last_message_data (store_without_previews [row_of ''a'']) (lit ''a'') = None \<and>
   toasts (fetchChatSessions (Some (lit ''u'')) None (store_without_previews [row_of ''a''])
     (initial_widget\<lparr>chatSessions := [(shown ''a'' False)\<lparr>lastMessage := lit ''hello''\<rparr>]\<rparr>)) = [] \<and>
   chatSessions (fetchChatSessions (Some (lit ''u'')) None (store_without_previews [row_of ''a''])
     (initial_widget\<lparr>chatSessions := [(shown ''a'' False)\<lparr>lastMessage := lit ''hello''\<rparr>]\<rparr>)) =
     [shown ''a'' False] \<and>
   chatSessions (fetchChatSessions (Some (lit ''u'')) None (store_without_previews [row_of ''a''])
     (initial_widget\<lparr>chatSessions := [(shown ''a'' False)\<lparr>lastMessage := lit ''hello''\<rparr>]\<rparr>)) \<noteq>
     chatSessions
       (initial_widget\<lparr>chatSessions := [(shown ''a'' False)\<lparr>lastMessage := lit ''hello''\<rparr>]\<rparr>)"
  by (simp add: fetchChatSessions_def issue_def Let_def store_without_previews_def
      succeeded_def to_chat_session_def preview_def title_or_default_def date_or_now_def
      is_current_def row_of_def shown_def initial_widget_def lit_def)

text \<open>
  Claim C7, amended. When the session query of the session-list fetch fails, the error
  notification is shown and the displayed session list stays as it was. When the session
  query succeeds, no notification is shown whatever the newest-message queries answer:
  the list is replaced by the fetched sessions, and a session whose newest-message query
  failed gets an empty preview.
\<close>

theorem list_sessions_failure:
  "(error (sessions_response env) \<noteq> None \<longrightarrow>
      chatSessions (fetchChatSessions (Some uid) cur env s) = chatSessions s \<and>
      toasts (fetchChatSessions (Some uid) cur env s) =
        toasts s @ [error_toast ''Failed to load chat history.'']) \<and>
   (error (sessions_response env) = None \<and> data (sessions_response env) = Some rows \<longrightarrow>
      toasts (fetchChatSessions (Some uid) cur env s) = toasts s \<and>
      map cs_id (chatSessions (fetchChatSessions (Some uid) cur env s)) = map row_id rows \<and>
      (\<forall>i<length rows. last_message_data env (row_id (rows ! i)) = None \<longrightarrow>
         lastMessage (chatSessions (fetchChatSessions (Some uid) cur env s) ! i) = []))"
proof -
  have failing: "chatSessions (fetchChatSessions (Some uid) cur env s) = chatSessions s \<and>
      toasts (fetchChatSessions (Some uid) cur env s) =
        toasts s @ [error_toast ''Failed to load chat history.'']"
    if "error (sessions_response env) \<noteq> None"
    using that by (auto simp: fetchChatSessions_def issue_def show_toast_def Let_def)
  have answered: "toasts (fetchChatSessions (Some uid) cur env s) = toasts s \<and>
      map cs_id (chatSessions (fetchChatSessions (Some uid) cur env s)) = map row_id rows \<and>
      (\<forall>i<length rows. last_message_data env (row_id (rows ! i)) = None \<longrightarrow>
         lastMessage (chatSessions (fetchChatSessions (Some uid) cur env s) ! i) = [])"
    if "error (sessions_response env) = None" and "data (sessions_response env) = Some rows"
    using that
    by (simp add: fetchChatSessions_def issue_def Let_def to_chat_session_def preview_def o_def)
  from failing answered show ?thesis by blast
qed

theorem list_sessions_failure_witness:
  "error (sessions_response store_down) \<noteq> None \<and>
   chatSessions (fetchChatSessions (Some (lit ''u'')) None store_down
     (initial_widget\<lparr>chatSessions := [shown ''a'' False]\<rparr>)) = [shown ''a'' False] \<and>
   toasts (fetchChatSessions (Some (lit ''u'')) None store_down
     (initial_widget\<lparr>chatSessions := [shown ''a'' False]\<rparr>)) =
     [error_toast ''Failed to load chat history.''] \<and>
   error (sessions_response (store_without_previews [row_of ''b''])) = None \<and>
   data (sessions_response (store_without_previews [row_of ''b''])) = Some [row_of ''b''] \<and>
   (0::nat) < length [row_of ''b''] \<and>
   last_message_data (store_without_previews [row_of ''b'']) (row_id ([row_of ''b''] ! 0)) = None \<and>
   toasts (fetchChatSessions (Some (lit ''u'')) None (store_without_previews [row_of ''b''])
     (initial_widget\<lparr>chatSessions := [shown ''a'' False]\<rparr>)) = [] \<and>
   map cs_id (chatSessions (fetchChatSessions (Some (lit ''u'')) None
     (store_without_previews [row_of ''b''])
     (initial_widget\<lparr>chatSessions := [shown ''a'' False]\<rparr>))) = [lit ''b''] \<and>
   lastMessage (chatSessions (fetchChatSessions (Some (lit ''u'')) None
     (store_without_previews [row_of ''b''])
     (initial_widget\<lparr>chatSessions := [shown ''a'' False]\<rparr>)) ! 0) = []"
proof -
  let ?s = "initial_widget\<lparr>chatSessions := [shown ''a'' False]\<rparr>"
  let ?env = "store_without_previews [row_of ''b'']"
  have h1: "error (sessions_response store_down) \<noteq> None"
    by (simp add: store_down_def failed_def)
  have h2: "error (sessions_response ?env) = None"
    by (simp add: store_without_previews_def succeeded_def)
  have h3: "data (sessions_response ?env) = Some [row_of ''b'']"
    by (simp add: store_without_previews_def succeeded_def)
  have h4: "(0::nat) < length [row_of ''b'']" by simp
  have h5: "last_message_data ?env (row_id ([row_of ''b''] ! 0)) = None"
    by (simp add: store_without_previews_def)
  from list_sessions_failure[of store_down "lit ''u''" None ?s "[]"] h1
  have down: "chatSessions (fetchChatSessions (Some (lit ''u'')) None store_down ?s) =
                [shown ''a'' False] \<and>
              toasts (fetchChatSessions (Some (lit ''u'')) None store_down ?s) =
                [error_toast ''Failed to load chat history.'']"
    by (simp add: initial_widget_def)
  from list_sessions_failure[of ?env "lit ''u''" None ?s "[row_of ''b'']"] h2 h3 h5
  have up: "toasts (fetchChatSessions (Some (lit ''u'')) None ?env ?s) = [] \<and>
            map cs_id (chatSessions (fetchChatSessions (Some (lit ''u'')) None ?env ?s)) =
              [lit ''b''] \<and>
            lastMessage (chatSessions (fetchChatSessions (Some (lit ''u'')) None ?env ?s) ! 0) = []"
    by (simp add: initial_widget_def row_of_def)
  from h1 h2 h3 h4 h5 down up show ?thesis by simp
qed

subsection \<open>Creating a session\<close>

text \<open>
  Claim C4. When a signed-in user creates a session and the insert succeeds, the new
  session is put in front of the list, every other session is marked inactive, the new
  session is the only one marked active, the visible message list is empty, and the
  pointer names the new session.
\<close>

theorem create_session_success:
  assumes "error r = None" and "data r = Some d"
  shows "chatSessions (createNewChatSession (Some uid) newSessionId r now s) =
           \<lparr>cs_id = row_id d, cs_title = lit ''New Chat'', lastMessage = [],
            cs_timestamp = now, isActive = True\<rparr>
           # map (\<lambda>x. x\<lparr>isActive := False\<rparr>) (chatSessions s) \<and>
         active_sessions (createNewChatSession (Some uid) newSessionId r now s) =
           [\<lparr>cs_id = row_id d, cs_title = lit ''New Chat'', lastMessage = [],
             cs_timestamp = now, isActive = True\<rparr>] \<and>
         messages (createNewChatSession (Some uid) newSessionId r now s) = [] \<and>
         currentSessionId (createNewChatSession (Some uid) newSessionId r now s) =
           Some (row_id d)"
  using assms
  by (simp add: createNewChatSession_def issue_def Let_def active_sessions_def
      filter_empty_conv)

theorem create_session_success_witness:
  "error (succeeded (row_of ''b'')) = None \<and> data (succeeded (row_of ''b'')) = Some (row_of ''b'') \<and>
   map cs_id (chatSessions (createNewChatSession (Some (lit ''u'')) (lit ''b'')
     (succeeded (row_of ''b'')) 250
     (initial_widget\<lparr>chatSessions := [shown ''a'' True], currentSessionId := Some (lit ''a'')\<rparr>))) =
     [lit ''b'', lit ''a''] \<and>
   map cs_id (active_sessions (createNewChatSession (Some (lit ''u'')) (lit ''b'')
     (succeeded (row_of ''b'')) 250
     (initial_widget\<lparr>chatSessions := [shown ''a'' True], currentSessionId := Some (lit ''a'')\<rparr>))) =
     [lit ''b''] \<and>
   messages (createNewChatSession (Some (lit ''u'')) (lit ''b'')
     (succeeded (row_of ''b'')) 250
     (initial_widget\<lparr>chatSessions := [shown ''a'' True], currentSessionId := Some (lit ''a'')\<rparr>)) = []"
proof -
  have h1: "error (succeeded (row_of ''b'')) = None" by (simp add: succeeded_def)
  have h2: "data (succeeded (row_of ''b'')) = Some (row_of ''b'')" by (simp add: succeeded_def)
  from create_session_success[OF h1 h2, of "lit ''u''" "lit ''b''" 250
      "initial_widget\<lparr>chatSessions := [shown ''a'' True], currentSessionId := Some (lit ''a'')\<rparr>"]
    h1 h2
  show ?thesis by (simp add: initial_widget_def shown_def row_of_def)
qed

subsection \<open>Loading a session\<close>


text \<open>
  A row without timestamp is shown with the time of the load, so even an answer in the
  store's ascending order (null last) is shown out of order when the clock of the
  component is behind a stored timestamp.
\<close>

lemma null_timestamp_reads_clock:
  "map msg_timestamp (messages (loadChatSession (lit ''a'')
     (succeeded [text_row ''hello'' 300, (text_row ''thanks'' 0)\<lparr>row_timestamp := None\<rparr>]) 250
     (initial_widget\<lparr>chatSessions := [shown ''a'' False]\<rparr>))) = [300, 250]"
  by (simp add: loadChatSession_def issue_def Let_def succeeded_def format_message_def
      date_or_now_def text_row_def)



subsection \<open>Deleting a session\<close>

text \<open>
  Claim C3, as stated: after a deletion has completed, with the re-fetch on success or on
  failure, no session with that id is in the visible list. It fails when the deletion
  command fails: the session is still in the store, the re-fetch in the \<^verbatim>\<open>catch\<close>
  block returns it, and the list shows it again.
\<close>

theorem failed_delete_shows_session_again:
  "lit ''a'' \<in> set (session_ids (deleteChatSession (Some (lit ''u'')) (lit ''a'') failed
     (store_with [row_of ''a''])
     (initial_widget\<lparr>chatSessions := [shown ''a'' True], currentSessionId := Some (lit ''a'')\<rparr>)))"
  by (simp add: session_ids_def delete_chatSessions fetch_applies_def returned_rows_def
      store_with_def succeeded_def to_chat_session_def row_of_def)

text \<open>
  Claim C3, amended. After a deletion has completed, a session with that id is in the
  visible list exactly when the list fetched afterwards holds it; when the fetched list
  does not hold it, or no list was fetched, no session with that id remains. If the
  deleted session was the active one, the visible message list is empty and the pointer
  is null.
\<close>

theorem delete_session_outcome:
  "(sessionId \<in> set (session_ids (deleteChatSession user sessionId r env s)) \<longleftrightarrow>
      sessionId \<in> set (map row_id (returned_rows user env))) \<and>
   (currentSessionId s = Some sessionId \<longrightarrow>
      messages (deleteChatSession user sessionId r env s) = [] \<and>
      currentSessionId (deleteChatSession user sessionId r env s) = None)"
proof -
  have "session_ids (deleteChatSession user sessionId r env s) = map row_id (returned_rows user env)"
    if "fetch_applies user env"
    using that by (simp add: session_ids_def delete_chatSessions to_chat_session_def o_def)
  moreover have "sessionId \<notin> set (session_ids (deleteChatSession user sessionId r env s)) \<and>
                 returned_rows user env = []"
    if "\<not> fetch_applies user env"
    using that
    by (auto simp: session_ids_def delete_chatSessions fetch_applies_def returned_rows_def
        split: option.splits)
  ultimately have "sessionId \<in> set (session_ids (deleteChatSession user sessionId r env s)) \<longleftrightarrow>
                   sessionId \<in> set (map row_id (returned_rows user env))"
    by (cases "fetch_applies user env") auto
  then show ?thesis
    by (simp add: delete_pointer delete_messages)
qed

theorem delete_session_outcome_witness:
  "lit ''a'' \<notin> set (map row_id (returned_rows (Some (lit ''u'')) (store_with [row_of ''b'']))) \<and>
   currentSessionId (initial_widget\<lparr>chatSessions := [shown ''a'' True, shown ''b'' False],
     messages := [\<lparr>msg_type = User, msg_content = lit ''hello'', msg_timestamp = 110\<rparr>],
     currentSessionId := Some (lit ''a'')\<rparr>) = Some (lit ''a'') \<and>
   session_ids (deleteChatSession (Some (lit ''u'')) (lit ''a'') (succeeded ())
     (store_with [row_of ''b''])
     (initial_widget\<lparr>chatSessions := [shown ''a'' True, shown ''b'' False],
       messages := [\<lparr>msg_type = User, msg_content = lit ''hello'', msg_timestamp = 110\<rparr>],
       currentSessionId := Some (lit ''a'')\<rparr>)) = [lit ''b''] \<and>
   messages (deleteChatSession (Some (lit ''u'')) (lit ''a'') (succeeded ())
     (store_with [row_of ''b''])
     (initial_widget\<lparr>chatSessions := [shown ''a'' True, shown ''b'' False],
       messages := [\<lparr>msg_type = User, msg_content = lit ''hello'', msg_timestamp = 110\<rparr>],
       currentSessionId := Some (lit ''a'')\<rparr>)) = [] \<and>
   currentSessionId (deleteChatSession (Some (lit ''u'')) (lit ''a'') (succeeded ())
     (store_with [row_of ''b''])
     (initial_widget\<lparr>chatSessions := [shown ''a'' True, shown ''b'' False],
       messages := [\<lparr>msg_type = User, msg_content = lit ''hello'', msg_timestamp = 110\<rparr>],
       currentSessionId := Some (lit ''a'')\<rparr>)) = None"
proof -
  let ?s = "initial_widget\<lparr>chatSessions := [shown ''a'' True, shown ''b'' False],
              messages := [\<lparr>msg_type = User, msg_content = lit ''hello'', msg_timestamp = 110\<rparr>],
              currentSessionId := Some (lit ''a'')\<rparr>"
  have h1: "lit ''a'' \<notin> set (map row_id (returned_rows (Some (lit ''u'')) (store_with [row_of ''b''])))"
    by (simp add: returned_rows_def store_with_def succeeded_def row_of_def lit_def)
  have h2: "currentSessionId ?s = Some (lit ''a'')" by simp
  have ids: "session_ids (deleteChatSession (Some (lit ''u'')) (lit ''a'') (succeeded ())
               (store_with [row_of ''b'']) ?s) = [lit ''b'']"
    by (simp add: session_ids_def delete_chatSessions fetch_applies_def returned_rows_def
        store_with_def succeeded_def to_chat_session_def row_of_def)
  from delete_session_outcome[of "lit ''a''" "Some (lit ''u'')" "succeeded ()"
      "store_with [row_of ''b'']" ?s] h1 h2 ids
  show ?thesis by simp
qed

subsection \<open>The active session\<close>

text \<open>
  Claim C8, as stated: with unique session ids in the list, every operation preserves
  that at most one visible session is marked active and that a marked session is the one
  the pointer names. It fails for a load whose message query fails: the requested
  session has been marked before the query, and the pointer is only set after it.
\<close>

theorem failed_load_breaks_invariant:
  "distinct (session_ids (initial_widget\<lparr>chatSessions := [shown ''a'' False]\<rparr>)) \<and>
   session_invariant (initial_widget\<lparr>chatSessions := [shown ''a'' False]\<rparr>) \<and>
   \<not> session_invariant (perform (Some (lit ''u'')) (LoadSession (lit ''a'') failed 250)
        (initial_widget\<lparr>chatSessions := [shown ''a'' False]\<rparr>))"
proof -
  let ?s = "initial_widget\<lparr>chatSessions := [shown ''a'' False]\<rparr>"
  have before: "active_sessions ?s = []"
    by (simp add: active_sessions_def shown_def)
  have after: "active_sessions (loadChatSession (lit ''a'') failed 250 ?s) = [shown ''a'' True]"
    by (simp add: load_active shown_def)
  have pointer: "currentSessionId (loadChatSession (lit ''a'') failed 250 ?s) = None"
    by (simp add: load_pointer failed_def initial_widget_def)
  from before after pointer show ?thesis
    by (simp add: session_ids_def session_invariant_def at_most_one_active_def
        active_is_current_def)
qed

text \<open>
  Claim C8, amended. With unique session ids in the visible list and in the rows the
  store returns, every operation leaves at most one visible session marked active. A
  marked session is the one the pointer names after every listing and creation, after a
  load whose message query succeeds, after a deletion unless it removed the active
  session and the list fetched afterwards still holds that session, and after a send
  from a pointer that is not the empty string.
\<close>

theorem invariant_preserved:
  assumes "distinct (session_ids s)" and "session_invariant s" and "unique_rows user op"
  shows "at_most_one_active (perform user op s) \<and>
         (settles user op s \<longrightarrow> active_is_current (perform user op s))"
proof (cases op)
  case (ListSessions env)
  with assms list_preserves[of s user env] show ?thesis
    by (simp add: session_invariant_def)
next
  case (CreateSession newSessionId r now)
  with assms create_preserves[of s user newSessionId r now] show ?thesis
    by (simp add: session_invariant_def)
next
  case (LoadSession sessionId r now)
  with assms load_preserves[of s sessionId r now] show ?thesis by simp
next
  case (DeleteSession sessionId r env)
  with assms delete_preserves[of s user env sessionId r] show ?thesis by simp
next
  case (Send env)
  with assms send_preserves[of s user env] show ?thesis by simp
qed

theorem invariant_preserved_witness:
  "distinct (session_ids (initial_widget\<lparr>chatSessions := [shown ''a'' True, shown ''b'' False],
     currentSessionId := Some (lit ''a'')\<rparr>)) \<and>
   session_invariant (initial_widget\<lparr>chatSessions := [shown ''a'' True, shown ''b'' False],
     currentSessionId := Some (lit ''a'')\<rparr>) \<and>
   unique_rows (Some (lit ''u''))
     (DeleteSession (lit ''a'') (succeeded ()) (store_with [row_of ''b''])) \<and>
   settles (Some (lit ''u''))
     (DeleteSession (lit ''a'') (succeeded ()) (store_with [row_of ''b'']))
     (initial_widget\<lparr>chatSessions := [shown ''a'' True, shown ''b'' False],
       currentSessionId := Some (lit ''a'')\<rparr>) \<and>
   at_most_one_active (perform (Some (lit ''u''))
     (DeleteSession (lit ''a'') (succeeded ()) (store_with [row_of ''b'']))
     (initial_widget\<lparr>chatSessions := [shown ''a'' True, shown ''b'' False],
       currentSessionId := Some (lit ''a'')\<rparr>)) \<and>
   active_is_current (perform (Some (lit ''u''))
     (DeleteSession (lit ''a'') (succeeded ()) (store_with [row_of ''b'']))
     (initial_widget\<lparr>chatSessions := [shown ''a'' True, shown ''b'' False],
       currentSessionId := Some (lit ''a'')\<rparr>))"
proof -
  let ?s = "initial_widget\<lparr>chatSessions := [shown ''a'' True, shown ''b'' False],
              currentSessionId := Some (lit ''a'')\<rparr>"
  let ?op = "DeleteSession (lit ''a'') (succeeded ()) (store_with [row_of ''b''])"
  have h1: "distinct (session_ids ?s)"
    by (simp add: session_ids_def shown_def lit_def)
  have h2: "session_invariant ?s"
    by (simp add: session_invariant_def at_most_one_active_def active_is_current_def
        active_sessions_def shown_def)
  have h3: "unique_rows (Some (lit ''u'')) ?op"
    by (simp add: returned_rows_def store_with_def succeeded_def)
  have h4: "settles (Some (lit ''u'')) ?op ?s"
    by (simp add: returned_rows_def store_with_def succeeded_def row_of_def lit_def)
  from invariant_preserved[OF h1 h2 h3] h1 h2 h3 h4 show ?thesis by blast
qed

text \<open>
  The deletion the amended claim leaves open: the command fails for the active session,
  the closing fetch compares with the pointer of the render that started the deletion,
  and the session comes back marked active while the pointer is null.
\<close>

lemma failed_delete_marks_session:
  "map isActive (chatSessions (deleteChatSession (Some (lit ''u'')) (lit ''a'') failed
     (store_with [row_of ''a''])
     (initial_widget\<lparr>chatSessions := [shown ''a'' True],
       currentSessionId := Some (lit ''a'')\<rparr>))) = [True] \<and>
   currentSessionId (deleteChatSession (Some (lit ''u'')) (lit ''a'') failed
     (store_with [row_of ''a''])
     (initial_widget\<lparr>chatSessions := [shown ''a'' True],
       currentSessionId := Some (lit ''a'')\<rparr>)) = None"
  by (simp add: delete_chatSessions delete_pointer fetch_applies_def returned_rows_def
      store_with_def succeeded_def to_chat_session_def is_current_def row_of_def)

subsection \<open>A session id generated on send\<close>

text \<open>
  Claim C9, as stated: when a send generates a session id because none was active and
  the request to the answering service fails, the pointer does not keep that id. It
  fails: the pointer is set before the request and the \<^verbatim>\<open>catch\<close> block only shows
  the notification.
\<close>

theorem failed_send_keeps_generated_id:
  "currentSessionId (initial_widget\<lparr>input := lit ''hello''\<rparr>) = None \<and>
   error (chat_response (send_with failed)) = Some ServiceError \<and>
   currentSessionId (handleSend (Some (lit ''u'')) (send_with failed)
     (initial_widget\<lparr>input := lit ''hello''\<rparr>)) = Some (lit ''fresh'')"
  by (simp add: send_pointer trim_Nil_iff falsy_id_def send_with_def failed_def
      initial_widget_def lit_def is_whitespace_def)

text \<open>
  Claim C9, amended. When a send generates a session id because none was active and the
  request to the answering service fails or resolves without data, the error
  notification is shown, the user's message stays in the visible list, and the pointer
  keeps the generated id: nothing of the send is rolled back.
\<close>

theorem send_failure_keeps_new_id:
  assumes "\<not> list_all is_whitespace (input s)"
      and "falsy_id (currentSessionId s)"
      and "error (chat_response env) \<noteq> None \<or> data (chat_response env) = None"
  shows "currentSessionId (handleSend (Some uid) env s) = Some (new_uuid env) \<and>
         toasts (handleSend (Some uid) env s) =
           toasts s @ [error_toast ''Failed to get a response. Please try again.''] \<and>
         messages (handleSend (Some uid) env s) =
           messages s @ [\<lparr>msg_type = User, msg_content = trim (input s),
                          msg_timestamp = user_now env\<rparr>]"
  using assms
  by (auto simp: handleSend_def trim_Nil_iff falsy_id_def issue_def show_toast_def Let_def
      split: option.splits)

theorem send_failure_keeps_new_id_witness:
  "\<not> list_all is_whitespace (input (initial_widget\<lparr>input := lit '' hi ''\<rparr>)) \<and>
   falsy_id (currentSessionId (initial_widget\<lparr>input := lit '' hi ''\<rparr>)) \<and>
   data (chat_response (send_with \<lparr>data = None, error = None\<rparr>)) = None \<and>
   currentSessionId (handleSend (Some (lit ''u'')) (send_with \<lparr>data = None, error = None\<rparr>)
     (initial_widget\<lparr>input := lit '' hi ''\<rparr>)) = Some (lit ''fresh'') \<and>
   toasts (handleSend (Some (lit ''u'')) (send_with \<lparr>data = None, error = None\<rparr>)
     (initial_widget\<lparr>input := lit '' hi ''\<rparr>)) =
     [error_toast ''Failed to get a response. Please try again.''] \<and>
   messages (handleSend (Some (lit ''u'')) (send_with \<lparr>data = None, error = None\<rparr>)
     (initial_widget\<lparr>input := lit '' hi ''\<rparr>)) =
     [\<lparr>msg_type = User, msg_content = lit ''hi'', msg_timestamp = 300\<rparr>]"
proof -
  let ?s = "initial_widget\<lparr>input := lit '' hi ''\<rparr>"
  let ?env = "send_with \<lparr>data = None, error = None\<rparr>"
  have h1: "\<not> list_all is_whitespace (input ?s)"
    by (simp add: lit_def is_whitespace_def)
  have h2: "falsy_id (currentSessionId ?s)"
    by (simp add: falsy_id_def initial_widget_def)
  have h3: "data (chat_response ?env) = None" by (simp add: send_with_def)
  have h3': "error (chat_response ?env) \<noteq> None \<or> data (chat_response ?env) = None"
    using h3 by simp
  have t: "trim (input ?s) = lit ''hi''"
    by (simp add: trim_def lit_def is_whitespace_def)
  from send_failure_keeps_new_id[OF h1 h2 h3', of "lit ''u''"] h1 h2 h3 t show ?thesis
    by (simp add: initial_widget_def send_with_def)
qed

end
